theory Spec2Isabelle
  imports Main
begin

section \<open>JavaScript values as the component reads them\<close>

text \<open>
  The component \<open>QueryResultTable\<close> handles cell values of type \<open>unknown\<close>, objects used
  as dictionaries and numbers used as indices. A value is one of the cases below;
  \<open>JObject\<close> stands for any object or function, of which the component only ever
  observes that it is truthy and not a string. Numbers are the integers (row identities,
  display positions, counts); the precision of doubles and the greatest length of an
  array are not modelled. A string is the list of its code units, so \<open>length\<close> is the
  source's \<open>.length\<close>.
\<close>

datatype jsval = JUndefined | JNull | JBool bool | JNum int | JStr string | JObject

datatype error = RangeError | TypeError

text \<open>Truthiness, as \<open>!v\<close>, \<open>v ? a : b\<close> and \<open>if (v)\<close> test it.\<close>

fun truthy :: "jsval \<Rightarrow> bool" where
  "truthy JUndefined = False"
| "truthy JNull = False"
| "truthy (JBool b) = b"
| "truthy (JNum n) = (n \<noteq> 0)"
| "truthy (JStr s) = (s \<noteq> [])"
| "truthy JObject = True"

text \<open>\<open>a ?? b\<close>: the right operand only when the left one is \<open>null\<close> or \<open>undefined\<close>.\<close>

fun nullish_coalesce :: "jsval \<Rightarrow> jsval \<Rightarrow> jsval" where
  "nullish_coalesce JUndefined b = b"
| "nullish_coalesce JNull b = b"
| "nullish_coalesce a b = a"

text \<open>
  A plain object (\<open>{}\<close>, \<open>Record<string, unknown>\<close>) is the map of its own properties.
  Reading \<open>obj[k]\<close> gives the own property when there is one; otherwise the property
  inherited from \<open>Object.prototype\<close> when \<open>k\<close> names one (each of them is a function or
  an object), and \<open>undefined\<close> otherwise.
\<close>

type_synonym jsobject = "string \<rightharpoonup> jsval"

text \<open>The object literal \<open>{}\<close>: no own property.\<close>

definition empty_object :: jsobject where
  "empty_object = Map.empty"

definition Object_prototype_keys :: "string list" where
  "Object_prototype_keys =
     [''constructor'', ''hasOwnProperty'', ''isPrototypeOf'', ''propertyIsEnumerable'',
      ''toLocaleString'', ''toString'', ''valueOf'', ''__proto__'',
      ''__defineGetter__'', ''__defineSetter__'', ''__lookupGetter__'', ''__lookupSetter__'']"

definition js_get :: "jsobject \<Rightarrow> string \<Rightarrow> jsval" where
  "js_get obj k =
     (case obj k of
        Some v \<Rightarrow> v
      | None \<Rightarrow> if k \<in> set Object_prototype_keys then JObject else JUndefined)"

text \<open>\<open>xs[i]\<close> on an array: \<open>undefined\<close> (here \<open>None\<close>) outside \<open>0 .. length - 1\<close>.\<close>

definition js_index :: "'a list \<Rightarrow> int \<Rightarrow> 'a option" where
  "js_index xs i = (if 0 \<le> i \<and> i < int (length xs) then Some (xs ! nat i) else None)"

text \<open>
  \<open>new Array(n).fill(v).map((_, idx) => f(idx))\<close>: the array constructor raises
  RangeError on a negative length; otherwise the callback runs on \<open>0, 1, ..., n - 1\<close> in
  order.
\<close>

definition new_Array_fill_map :: "int \<Rightarrow> (int \<Rightarrow> 'a) \<Rightarrow> error + 'a list" where
  "new_Array_fill_map n f =
     (if n < 0 then Inl RangeError else Inr (map (\<lambda>idx. f (int idx)) [0..<nat n]))"

text \<open>\<open>xs.findIndex(p)\<close>: the index of the first element satisfying \<open>p\<close>, and -1 when none does.\<close>

fun findIndex_from :: "('a \<Rightarrow> bool) \<Rightarrow> 'a list \<Rightarrow> int \<Rightarrow> int" where
  "findIndex_from p [] k = - 1"
| "findIndex_from p (x # xs) k = (if p x then k else findIndex_from p xs (k + 1))"

definition findIndex :: "('a \<Rightarrow> bool) \<Rightarrow> 'a list \<Rightarrow> int" where
  "findIndex p xs = findIndex_from p xs 0"

text \<open>
  \<open>Math.max\<close>, \<open>Math.min\<close> and \<open>*\<close> on the numbers of the width computation:
  \<open>Math.max()\<close> of no argument is \<open>-Infinity\<close>, which a positive factor and \<open>Math.min\<close>
  keep and \<open>Math.max\<close> with a finite number drops.
\<close>

datatype jsnum = NegInfinity | Finite int

fun Math_max_list :: "int list \<Rightarrow> jsnum" where
  "Math_max_list [] = NegInfinity"
| "Math_max_list (x # xs) =
     (case Math_max_list xs of NegInfinity \<Rightarrow> Finite x | Finite m \<Rightarrow> Finite (max x m))"

fun Math_max :: "jsnum \<Rightarrow> jsnum \<Rightarrow> jsnum" where
  "Math_max NegInfinity b = b"
| "Math_max a NegInfinity = a"
| "Math_max (Finite a) (Finite b) = Finite (max a b)"

fun Math_min :: "jsnum \<Rightarrow> jsnum \<Rightarrow> jsnum" where
  "Math_min NegInfinity b = NegInfinity"
| "Math_min a NegInfinity = NegInfinity"
| "Math_min (Finite a) (Finite b) = Finite (min a b)"

text \<open>\<open>a * 8\<close>, the only product on a possibly infinite number.\<close>

fun times8 :: "jsnum \<Rightarrow> jsnum" where
  "times8 NegInfinity = NegInfinity"
| "times8 (Finite a) = Finite (a * 8)"

section \<open>The data model of the component\<close>

text \<open>
  \<open>QueryResultHeader\<close> is declared outside this file; the component reads \<open>name\<close>,
  \<open>type.type\<close>, \<open>schema?.table\<close> and \<open>schema?.primaryKey\<close> of it.
\<close>

record header_schema =
  table :: "string option"
  primaryKey :: "bool option"

record header =
  name :: string
  type_type :: string
  schema :: "header_schema option"

text \<open>An element of \<open>result\<close> and of \<open>data\<close>: \<open>{ data: Record<string, unknown>; rowIndex: number }\<close>.\<close>

record result_row =
  data :: jsobject
  rowIndex :: int

text \<open>
  The collaborators are observed through what they return and driven through calls. A
  cell controller is a reference; the calls a handler makes are recorded, in order, in
  a log.
\<close>

datatype cell = Cell nat

datatype effect =
    CollectorCreateNewRow
  | CollectorRemoveRow int
  | CollectorClear
  | CellInsert cell jsval
  | CellCopy cell
  | CellPaste cell
  | CellDiscard cell

text \<open>\<open>collector.getChanges().changes\<close>: a list of \<open>{row, cols: [{col, value}]}\<close>.\<close>

record change_col =
  col :: int
  change_value :: jsval

record change_row =
  row :: int
  cols :: "change_col list"

text \<open>What the handlers read of the collector and of the cell manager.\<close>

record collector =
  getChangesCount :: int
  getChanges :: "change_row list"

record cellManager =
  getFocusCell :: "cell option"
  get :: "int \<Rightarrow> int \<Rightarrow> cell option"

section \<open>The context menu\<close>

text \<open>
  One entry of the list the \<open>useContextMenu\<close> callback returns. An absent property is
  \<open>None\<close>; the menu treats an absent \<open>disabled\<close> as not disabled. \<open>onClick\<close> is the log of
  calls the handler makes, given the collector and cell manager as they are at the click.
  The icons are presentation and left out.
\<close>

record menu_item =
  item_text :: string
  destructive :: "bool option"
  disabled :: "bool option"
  hotkey :: "string option"
  separator :: "bool option"
  onClick :: "collector \<Rightarrow> cellManager \<Rightarrow> effect list"

definition is_disabled :: "menu_item \<Rightarrow> bool" where
  "is_disabled item = (disabled item = Some True)"

text \<open>
  The loop of ``Remove selected rows'': one \<open>collector.removeRow\<close> per selected display
  position, in order. \<open>newRowCount\<close>, \<open>page\<close> and \<open>pageSize\<close> are the values the closure
  captured.
\<close>

fun removeSelectedRows_loop :: "int list \<Rightarrow> int \<Rightarrow> int \<Rightarrow> int \<Rightarrow> effect list \<Rightarrow> effect list" where
  "removeSelectedRows_loop [] newRowCount page pageSize log = log"
| "removeSelectedRows_loop (selectedRowIndex # rest) newRowCount page pageSize log =
     removeSelectedRows_loop rest newRowCount page pageSize
       (log @ [CollectorRemoveRow
                 (if selectedRowIndex - newRowCount < 0
                  then selectedRowIndex - newRowCount
                  else selectedRowIndex - newRowCount + page * pageSize)])"

definition removeSelectedRows_onClick :: "int list \<Rightarrow> int \<Rightarrow> int \<Rightarrow> int \<Rightarrow> effect list" where
  "removeSelectedRows_onClick selectedRowsIndex newRowCount page pageSize =
     removeSelectedRows_loop selectedRowsIndex newRowCount page pageSize []"

text \<open>
  The loops of ``Discard All Changes'': for every row of the changes and every column
  of the row, \<open>discard()\<close> on the cell the manager returns, if it returns one.
\<close>

fun discard_cols_loop :: "cellManager \<Rightarrow> int \<Rightarrow> change_col list \<Rightarrow> effect list \<Rightarrow> effect list" where
  "discard_cols_loop cm r [] log = log"
| "discard_cols_loop cm r (c # rest) log =
     discard_cols_loop cm r rest
       (case get cm r (col c) of
          Some cell \<Rightarrow> log @ [CellDiscard cell]
        | None \<Rightarrow> log)"

fun discard_rows_loop :: "cellManager \<Rightarrow> change_row list \<Rightarrow> effect list \<Rightarrow> effect list" where
  "discard_rows_loop cm [] log = log"
| "discard_rows_loop cm (r # rest) log =
     discard_rows_loop cm rest (discard_cols_loop cm (row r) (cols r) log)"

definition discardAllChanges_onClick :: "collector \<Rightarrow> cellManager \<Rightarrow> effect list" where
  "discardAllChanges_onClick c cm =
     (let rows = getChanges c
      in discard_rows_loop cm rows [] @ [CollectorClear])"

text \<open>\<open>selectedCell?.f()\<close>: the call when a cell is focused, nothing otherwise.\<close>

definition optional_call :: "cell option \<Rightarrow> (cell \<Rightarrow> effect) \<Rightarrow> effect list" where
  "optional_call selectedCell f = (case selectedCell of Some c \<Rightarrow> [f c] | None \<Rightarrow> [])"

text \<open>
  The callback given to \<open>useContextMenu\<close>. \<open>c\<close> and \<open>cm\<close> are the collector and the cell
  manager when the menu is built.
\<close>

definition contextMenu ::
  "collector \<Rightarrow> cellManager \<Rightarrow> int list \<Rightarrow> int \<Rightarrow> int \<Rightarrow> int \<Rightarrow> menu_item list" where
  "contextMenu c cm selectedRowsIndex newRowCount page pageSize =
     (let selectedCell = getFocusCell cm in
      [ \<lparr> item_text = ''Insert new row'', destructive = None, disabled = None,
          hotkey = None, separator = None,
          onClick = (\<lambda>_ _. [CollectorCreateNewRow]) \<rparr>,
        \<lparr> item_text = ''Remove selected rows'', destructive = Some True,
          disabled = Some (length selectedRowsIndex = 0),
          hotkey = None, separator = Some True,
          onClick = (\<lambda>_ _. removeSelectedRows_onClick selectedRowsIndex newRowCount page pageSize) \<rparr>,
        \<lparr> item_text = ''Insert NULL'', destructive = None,
          disabled = Some (selectedCell = None),
          hotkey = None, separator = Some True,
          onClick = (\<lambda>_ _. optional_call selectedCell (\<lambda>cell. CellInsert cell JNull)) \<rparr>,
        \<lparr> item_text = ''Copy'', destructive = None,
          disabled = Some (selectedCell = None),
          hotkey = Some ''Ctrl + C'', separator = None,
          onClick = (\<lambda>_ _. optional_call selectedCell CellCopy) \<rparr>,
        \<lparr> item_text = ''Paste'', destructive = None,
          disabled = Some (selectedCell = None),
          hotkey = Some ''Ctrl + V'', separator = Some True,
          onClick = (\<lambda>_ _. optional_call selectedCell CellPaste) \<rparr>,
        \<lparr> item_text = ''Discard All Changes'', destructive = Some True,
          disabled = Some (getChangesCount c = 0),
          hotkey = None, separator = None,
          onClick = discardAllChanges_onClick \<rparr> ])"

section \<open>The memoised values of the component\<close>

text \<open>
  Each \<open>useMemo\<close> and \<open>useCallback\<close> is the function of the values its body reads; a
  value kept from an earlier render because a dependency is not listed is not modelled.
  \<open>data\<close>, \<open>newRowsIndex\<close> and \<open>relativeRemoveRowsIndex\<close> are given to the grid as they
  are computed (the props \<open>data\<close>, \<open>newRowsIndex\<close> and \<open>removedRowsIndex\<close>).
\<close>

text \<open>\<open>newRowsIndex\<close>: \<open>new Array(newRowCount).fill(0).map((_, idx) => idx)\<close>.\<close>

definition newRowsIndex :: "int \<Rightarrow> error + int list" where
  "newRowsIndex newRowCount = new_Array_fill_map newRowCount (\<lambda>idx. idx)"

text \<open>
  The \<open>data\<close> object of a new row:
  \<open>headers.reduce((prev, header) => ({ ...prev, [header.name]: undefined }), {})\<close>.
\<close>

definition new_row_data :: "header list \<Rightarrow> jsobject" where
  "new_row_data headers =
     foldl (\<lambda>prev header. prev(name header \<mapsto> JUndefined)) empty_object headers"

text \<open>\<open>data\<close>: the new rows, then the rows of \<open>result\<close>.\<close>

definition data_memo :: "header list \<Rightarrow> result_row list \<Rightarrow> int \<Rightarrow> error + result_row list" where
  "data_memo headers result newRowCount =
     (case new_Array_fill_map newRowCount
             (\<lambda>newRowIndex. \<lparr> data = new_row_data headers, rowIndex = - (newRowIndex + 1) \<rparr>) of
        Inl e \<Rightarrow> Inl e
      | Inr newRows \<Rightarrow> Inr (newRows @ result))"

text \<open>
  \<open>updatableTables\<close>. \<open>getUpdatableTable\<close> is imported from another module and is a
  parameter here; it receives what \<open>schema[currentDatabase]\<close> reads. The schema map is a
  plain object from database names to database schemas, so the read gives the schema
  stored under the name, or else the property inherited from \<open>Object.prototype\<close> when
  the name is one of its keys, or else \<open>undefined\<close>. The schema map and the current
  database may be absent, and an empty database name is falsy. \<open>headers\<close> is an array
  and so always truthy.
\<close>

datatype 'd property = Own 'd | Inherited | Undefined

definition js_read :: "(string \<rightharpoonup> 'd) \<Rightarrow> string \<Rightarrow> 'd property" where
  "js_read obj k =
     (case obj k of
        Some v \<Rightarrow> Own v
      | None \<Rightarrow> if k \<in> set Object_prototype_keys then Inherited else Undefined)"

definition updatableTables_memo ::
  "(header list \<Rightarrow> 'd property \<Rightarrow> jsobject) \<Rightarrow> header list \<Rightarrow> (string \<rightharpoonup> 'd) option
     \<Rightarrow> string option \<Rightarrow> jsobject" where
  "updatableTables_memo getUpdatableTable headers schemaMap currentDatabase =
     (case currentDatabase of
        None \<Rightarrow> empty_object
      | Some db \<Rightarrow>
          (case schemaMap of
             None \<Rightarrow> empty_object
           | Some s \<Rightarrow>
               if db \<noteq> [] then getUpdatableTable headers (js_read s db) else empty_object))"

text \<open>
  \<open>headerMemo\<close>. The length a row contributes to the sample of a column: the length of
  the string when the value is one, and 10 otherwise.
\<close>

definition sample_length :: "header \<Rightarrow> result_row \<Rightarrow> int" where
  "sample_length header r =
     (case js_get (data r) (name header) of JStr s \<Rightarrow> int (length s) | _ \<Rightarrow> 10)"

definition getInitialSizeByHeaderType :: "result_row list \<Rightarrow> int \<Rightarrow> header \<Rightarrow> jsnum" where
  "getInitialSizeByHeaderType result idx header =
     (if type_type header = ''number'' then Finite 100
      else if type_type header = ''string'' \<or> type_type header = ''decimal'' then
        (let maxLength = Math_max_list (map (sample_length header) (take 100 result))
         in Math_max (Finite 150) (Math_min (Finite 500) (times8 maxLength)))
      else Finite 150)"

datatype icon = GreenKey

record grid_header =
  header_name :: string
  resizable :: bool
  icon :: "icon option"
  initialSize :: jsnum

definition headerMemo_entry :: "result_row list \<Rightarrow> int \<Rightarrow> header \<Rightarrow> grid_header" where
  "headerMemo_entry result idx header =
     \<lparr> header_name = (if name header \<noteq> [] then name header else []),
       resizable = True,
       icon = (case schema header of
                 None \<Rightarrow> None
               | Some s \<Rightarrow> if primaryKey s = Some True then Some GreenKey else None),
       initialSize = Math_max (Finite (int (length (name header)) * 10))
                       (getInitialSizeByHeaderType result idx header) \<rparr>"

definition headerMemo :: "header list \<Rightarrow> result_row list \<Rightarrow> grid_header list" where
  "headerMemo headers result =
     map (\<lambda>(idx, header). headerMemo_entry result (int idx) header) (enumerate 0 headers)"

text \<open>
  \<open>renderCell\<close>. \<open>data[y]\<close> is \<open>undefined\<close> outside the rows and then the callback returns
  the empty fragment. Inside, \<open>headers[x].name\<close> raises TypeError when \<open>headers[x]\<close> is
  \<open>undefined\<close>. The table looked up is \<open>headers[x]?.schema?.table || ''\<close>.
\<close>

record table_cell_props =
  key :: int
  cell_value :: jsval
  cell_header :: header
  cell_col :: int
  cell_row :: int
  readOnly :: bool

datatype renderable = Fragment | TableCell table_cell_props

definition header_table_or_empty :: "header \<Rightarrow> string" where
  "header_table_or_empty h =
     (case schema h of
        None \<Rightarrow> []
      | Some s \<Rightarrow> (case table s of None \<Rightarrow> [] | Some t \<Rightarrow> if t \<noteq> [] then t else []))"

definition renderCell ::
  "result_row list \<Rightarrow> header list \<Rightarrow> jsobject \<Rightarrow> int \<Rightarrow> int \<Rightarrow> error + renderable" where
  "renderCell displayData headers updatableTables y x =
     (case js_index displayData y of
        None \<Rightarrow> Inr Fragment
      | Some r \<Rightarrow>
          (case js_index headers x of
             None \<Rightarrow> Inl TypeError
           | Some h \<Rightarrow>
               Inr (TableCell
                 \<lparr> key = rowIndex r,
                   cell_value = js_get (data r) (name h),
                   cell_header = h,
                   cell_col = x,
                   cell_row = rowIndex r,
                   readOnly = (\<not> truthy (js_get updatableTables (header_table_or_empty h))) \<rparr>)))"

text \<open>
  \<open>relativeRemoveRowsIndex\<close>:
  \<open>removeRowsIndex.map((removeIndex) => data.findIndex(({ rowIndex }) => rowIndex === removeIndex) ?? 0)\<close>.
\<close>

definition relativeRemoveRowsIndex :: "int list \<Rightarrow> result_row list \<Rightarrow> jsval list" where
  "relativeRemoveRowsIndex removeRowsIndex displayData =
     map (\<lambda>removeIndex.
            nullish_coalesce (JNum (findIndex (\<lambda>r. rowIndex r = removeIndex) displayData)) (JNum 0))
         removeRowsIndex"

section \<open>The handlers of the context menu\<close>

lemma removeSelectedRows_loop_append:
  "removeSelectedRows_loop sel n page pageSize log =
     log @ map (\<lambda>p. CollectorRemoveRow (if p - n < 0 then p - n else (p - n) + page * pageSize)) sel"
  by (induction sel arbitrary: log) simp_all

text \<open>
  Claim C1. Clicking ``Remove selected rows'' (the second entry of the menu) calls
  \<open>collector.removeRow\<close> once per selected display position \<open>p\<close>, in order, with
  \<open>p - newRowCount\<close> when that difference is negative and with
  \<open>(p - newRowCount) + page * pageSize\<close> otherwise. With \<open>page = 2\<close>, \<open>pageSize = 50\<close>,
  one new row and \<open>p = 5\<close> the identity removed is 104.
\<close>

theorem C1_removeRow_identity:
  "onClick (contextMenu c cm sel n page pageSize ! 1) c' cm' =
     map (\<lambda>p. CollectorRemoveRow (if p - n < 0 then p - n else (p - n) + page * pageSize)) sel
   \<and> onClick (contextMenu c cm [5] 1 2 50 ! 1) c' cm' = [CollectorRemoveRow 104]"
  by (simp add: contextMenu_def Let_def removeSelectedRows_onClick_def
        removeSelectedRows_loop_append)

lemma discard_cols_loop_append:
  "discard_cols_loop cm r cs log =
     log @ concat (map (\<lambda>c. case get cm r (col c) of Some cell \<Rightarrow> [CellDiscard cell] | None \<Rightarrow> []) cs)"
  by (induction cs arbitrary: log) (simp_all split: option.splits)

lemma discard_rows_loop_append:
  "discard_rows_loop cm rs log =
     log @ concat (map (\<lambda>r. concat (map (\<lambda>c. case get cm (row r) (col c) of
                                                  Some cell \<Rightarrow> [CellDiscard cell]
                                                | None \<Rightarrow> []) (cols r))) rs)"
  by (induction rs arbitrary: log) (simp_all add: discard_cols_loop_append)

text \<open>
  Claim C5. Clicking ``Discard All Changes'' (the sixth entry) goes through every pending
  edit of \<open>collector.getChanges().changes\<close> in order, calls \<open>discard()\<close> on the cell
  that \<open>cellManager.get(row, col)\<close> returns exactly when it returns one and does nothing
  for an edit whose cell is not mounted, and then calls \<open>collector.clear()\<close>: the call
  is the last one and is made once. The collector and the cell manager are the ones
  at the click; the list of changes is read once, before the loop.
\<close>

theorem C5_discard_all_changes:
  "onClick (contextMenu c cm sel n page pageSize ! 5) c' cm' =
     concat (map (\<lambda>r. concat (map (\<lambda>k. case get cm' (row r) (col k) of
                                           Some cell \<Rightarrow> [CellDiscard cell]
                                         | None \<Rightarrow> []) (cols r)))
                 (getChanges c'))
     @ [CollectorClear]
   \<and> count_list (onClick (contextMenu c cm sel n page pageSize ! 5) c' cm') CollectorClear = 1
   \<and> last (onClick (contextMenu c cm sel n page pageSize ! 5) c' cm') = CollectorClear"
proof -
  let ?discards = "concat (map (\<lambda>r. concat (map (\<lambda>k. case get cm' (row r) (col k) of
                                           Some cell \<Rightarrow> [CellDiscard cell]
                                         | None \<Rightarrow> []) (cols r)))
                 (getChanges c'))"
  have log: "onClick (contextMenu c cm sel n page pageSize ! 5) c' cm' = ?discards @ [CollectorClear]"
    by (simp add: contextMenu_def Let_def discardAllChanges_onClick_def discard_rows_loop_append)
  have "CollectorClear \<notin> set ?discards"
    by (auto split: option.splits)
  then have "count_list ?discards CollectorClear = 0"
    by (simp add: count_list_0_iff)
  then have once: "count_list (?discards @ [CollectorClear]) CollectorClear = 1"
    by simp
  show ?thesis
    unfolding log using once by simp
qed

text \<open>
  Claim C6. In the menu built, ``Remove selected rows'' is disabled exactly when the
  selection is empty; ``Insert NULL'', ``Copy'' and ``Paste'' exactly when no cell is
  focused; ``Discard All Changes'' exactly when \<open>collector.getChangesCount()\<close> is zero;
  ``Insert new row'' is never disabled. The menu has these six entries, in this order.
\<close>

theorem C6_disabled_entries:
  "map (\<lambda>i. (item_text i, is_disabled i)) (contextMenu c cm sel n page pageSize) =
     [ (''Insert new row'', False),
       (''Remove selected rows'', sel = []),
       (''Insert NULL'', getFocusCell cm = None),
       (''Copy'', getFocusCell cm = None),
       (''Paste'', getFocusCell cm = None),
       (''Discard All Changes'', getChangesCount c = 0) ]"
  by (simp add: contextMenu_def Let_def is_disabled_def)

section \<open>The display rows\<close>

lemma foldl_new_row_data:
  "foldl (\<lambda>prev header. prev(name header \<mapsto> JUndefined)) m hs =
     (\<lambda>k. if k \<in> name ` set hs then Some JUndefined else m k)"
  by (induction hs arbitrary: m) (auto simp: fun_eq_iff)

lemma new_row_data_eq:
  "new_row_data headers = (\<lambda>k. if k \<in> name ` set headers then Some JUndefined else None)"
  by (simp add: new_row_data_def empty_object_def foldl_new_row_data)

text \<open>
  Claim C3. For a new-row count \<open>n \<ge> 0\<close> and any fetched rows, \<open>data\<close> is the \<open>n\<close> new rows
  in creation order, the \<open>k\<close>-th (from 0) with \<open>rowIndex = -(k + 1)\<close> and a \<open>data\<close> object
  whose own properties are exactly the header names, each \<open>undefined\<close>, followed by the
  fetched rows in their order; and \<open>newRowsIndex\<close>, the list of new-row positions given
  to the grid, is \<open>[0, 1, ..., n - 1]\<close>.
\<close>

theorem C3_display_rows:
  assumes "0 \<le> n"
  shows "data_memo headers result n =
           Inr (map (\<lambda>k. \<lparr> data = (\<lambda>h. if h \<in> name ` set headers then Some JUndefined else None),
                            rowIndex = - (int k + 1) \<rparr>) [0..<nat n] @ result)
         \<and> newRowsIndex n = Inr (map int [0..<nat n])"
  using assms
  by (simp add: data_memo_def newRowsIndex_def new_Array_fill_map_def new_row_data_eq)

theorem C3_display_rows_witness:
  "(0::int) \<le> 2
   \<and> data_memo [] [\<lparr> data = empty_object, rowIndex = 0 \<rparr>] 2 =
       Inr [\<lparr> data = empty_object, rowIndex = - 1 \<rparr>, \<lparr> data = empty_object, rowIndex = - 2 \<rparr>,
            \<lparr> data = empty_object, rowIndex = 0 \<rparr>]
   \<and> newRowsIndex 2 = Inr [0, 1]"
  using C3_display_rows [of 2 "[]" "[\<lparr> data = empty_object, rowIndex = 0 \<rparr>]"]
  by (simp add: empty_object_def upt_rec)

section \<open>Rendering a cell\<close>

text \<open>
  Claim C8. For a display row \<open>y\<close> at or beyond the length of \<open>data\<close>, whatever the column,
  \<open>renderCell\<close> returns the empty fragment and raises nothing.
\<close>

theorem C8_past_the_end_is_empty:
  assumes "int (length displayData) \<le> y"
  shows "renderCell displayData headers updatableTables y x = Inr Fragment"
  using assms by (simp add: renderCell_def js_index_def)

theorem C8_past_the_end_is_empty_witness:
  "int (length [\<lparr> data = empty_object, rowIndex = 0 \<rparr>]) \<le> 1
   \<and> renderCell [\<lparr> data = empty_object, rowIndex = 0 \<rparr>] [] empty_object 1 0 = Inr Fragment"
  using C8_past_the_end_is_empty
          [of "[\<lparr> data = empty_object, rowIndex = 0 \<rparr>]" 1 "[]" empty_object 0]
  by simp

section \<open>The display positions of the removed rows\<close>

lemma findIndex_from_first:
  "j < length xs \<Longrightarrow> p (xs ! j) \<Longrightarrow> (\<And>m. m < j \<Longrightarrow> \<not> p (xs ! m)) \<Longrightarrow>
     findIndex_from p xs k = k + int j"
proof (induction xs arbitrary: j k)
  case Nil
  then show ?case by simp
next
  case (Cons x xs)
  show ?case
  proof (cases j)
    case 0
    with Cons.prems show ?thesis by simp
  next
    case (Suc j')
    have nx: "\<not> p x" using Cons.prems(3) [of 0] Suc by simp
    have "findIndex_from p xs (k + 1) = (k + 1) + int j'"
    proof (rule Cons.IH)
      show "j' < length xs" using Cons.prems(1) Suc by simp
      show "p (xs ! j')" using Cons.prems(2) Suc by simp
      fix m assume "m < j'"
      then show "\<not> p (xs ! m)" using Cons.prems(3) [of "Suc m"] Suc by simp
    qed
    with nx Suc show ?thesis by simp
  qed
qed

lemma findIndex_from_none:
  "(\<And>x. x \<in> set xs \<Longrightarrow> \<not> p x) \<Longrightarrow> findIndex_from p xs k = - 1"
  by (induction xs arbitrary: k) simp_all

text \<open>
  Claim C10. The \<open>?? 0\<close> of \<open>relativeRemoveRowsIndex\<close> never applies: every position given
  to the grid is the number \<open>findIndex\<close> returns. In particular a removed identity that
  is the \<open>rowIndex\<close> of no display row is forwarded as -1, not as 0.
\<close>

theorem C10_no_match_is_minus_one:
  "relativeRemoveRowsIndex rs d = map (\<lambda>i. JNum (findIndex (\<lambda>r. rowIndex r = i) d)) rs
   \<and> (\<forall>k<length rs. (\<forall>r\<in>set d. rowIndex r \<noteq> rs ! k) \<longrightarrow>
         relativeRemoveRowsIndex rs d ! k = JNum (- 1) \<and> relativeRemoveRowsIndex rs d ! k \<noteq> JNum 0)"
  by (simp add: relativeRemoveRowsIndex_def findIndex_def findIndex_from_none)

theorem C10_no_match_is_minus_one_witness:
  "(0::nat) < length [7::int]
   \<and> rowIndex \<lparr> data = empty_object, rowIndex = 0 \<rparr> \<noteq> [7] ! 0
   \<and> relativeRemoveRowsIndex [7] [\<lparr> data = empty_object, rowIndex = 0 \<rparr>] ! 0 = JNum (- 1)"
  using C10_no_match_is_minus_one
          [of "[7]" "[\<lparr> data = empty_object, rowIndex = 0 \<rparr>]", THEN conjunct2, rule_format, of 0]
  by simp

section \<open>Removed rows: from identities back to display positions\<close>

lemma data_memo_Inr:
  assumes "data_memo headers result n = Inr d"
  shows "0 \<le> n"
    and "d = map (\<lambda>k. \<lparr> data = new_row_data headers, rowIndex = - (int k + 1) \<rparr>) [0..<nat n] @ result"
  using assms by (auto simp: data_memo_def new_Array_fill_map_def split: if_splits)

lemma data_memo_nth_new:
  assumes "data_memo headers result n = Inr d" and "m < nat n"
  shows "rowIndex (d ! m) = - (int m + 1)"
  using data_memo_Inr(2) [OF assms(1)] assms(2) by (simp add: nth_append)

lemma data_memo_nth_fetched:
  assumes "data_memo headers result n = Inr d" and "nat n \<le> m"
  shows "d ! m = result ! (m - nat n)"
  using data_memo_Inr(2) [OF assms(1)] assms(2) by (simp add: nth_append)

lemma data_memo_length:
  assumes "data_memo headers result n = Inr d"
  shows "length d = nat n + length result"
  using data_memo_Inr(2) [OF assms(1)] by simp

lemma findIndex_new_row:
  assumes d: "data_memo headers result n = Inr d" and i: "- n \<le> i" "i < 0"
  shows "findIndex (\<lambda>r. rowIndex r = i) d = - i - 1"
proof -
  let ?j = "nat (- i - 1)"
  have j: "?j < nat n" using i by linarith
  have "findIndex_from (\<lambda>r. rowIndex r = i) d 0 = 0 + int ?j"
  proof (rule findIndex_from_first)
    show "?j < length d" using j data_memo_length [OF d] by linarith
    show "rowIndex (d ! ?j) = i" using data_memo_nth_new [OF d j] i by simp
    fix m assume "m < ?j"
    then have "m < nat n" and "- (int m + 1) \<noteq> i" using j by linarith+
    then show "rowIndex (d ! m) \<noteq> i" using data_memo_nth_new [OF d] by simp
  qed
  then show ?thesis using i by (simp add: findIndex_def)
qed

lemma findIndex_fetched_row:
  assumes d: "data_memo headers result n = Inr d"
    and ids: "\<forall>k<length result. rowIndex (result ! k) = off + int k"
    and i: "0 \<le> i" "off \<le> i" "i < off + int (length result)"
  shows "findIndex (\<lambda>r. rowIndex r = i) d = n + (i - off)"
proof -
  have n: "0 \<le> n" by (rule data_memo_Inr(1) [OF d])
  let ?j = "nat n + nat (i - off)"
  have k: "nat (i - off) < length result" using i by linarith
  have "findIndex_from (\<lambda>r. rowIndex r = i) d 0 = 0 + int ?j"
  proof (rule findIndex_from_first)
    show "?j < length d" using k data_memo_length [OF d] by simp
    have "d ! ?j = result ! nat (i - off)"
      using data_memo_nth_fetched [OF d, of ?j] by simp
    then show "rowIndex (d ! ?j) = i" using ids k i by simp
    fix m assume m: "m < ?j"
    show "rowIndex (d ! m) \<noteq> i"
    proof (cases "m < nat n")
      case True
      then show ?thesis using data_memo_nth_new [OF d True] i by simp
    next
      case False
      then have ge: "nat n \<le> m" by simp
      have lt: "m - nat n < nat (i - off)" using m False by linarith
      then have "m - nat n < length result" using k by linarith
      then have "rowIndex (result ! (m - nat n)) = off + int (m - nat n)" using ids by simp
      moreover have "off + int (m - nat n) \<noteq> i" using lt i by linarith
      ultimately show ?thesis using data_memo_nth_fetched [OF d ge] by simp
    qed
  qed
  then show ?thesis using n i by (simp add: findIndex_def)
qed

text \<open>
  Claim C4, as the claim states it, does not hold: the position forwarded for a removed
  identity \<open>i\<close> is looked up in \<open>data\<close>, it is not computed from \<open>i\<close>. On page 2 with
  \<open>pageSize = 50\<close> and no new row, removing display position 0 removes identity 100; the
  fetched row with \<open>rowIndex = 100\<close> is at display position 0, not at \<open>0 + 100\<close>. With
  one new row, the identity -3 names no display row and is forwarded as -1, not as
  \<open>-(-3) - 1 = 2\<close>.
\<close>

theorem C4_position_is_looked_up_counterexample:
  "removeSelectedRows_onClick [0] 0 2 50 = [CollectorRemoveRow 100]
   \<and> data_memo [] [\<lparr> data = empty_object, rowIndex = 100 \<rparr>] 0 =
       Inr [\<lparr> data = empty_object, rowIndex = 100 \<rparr>]
   \<and> relativeRemoveRowsIndex [100] [\<lparr> data = empty_object, rowIndex = 100 \<rparr>] = [JNum 0]
   \<and> relativeRemoveRowsIndex [100] [\<lparr> data = empty_object, rowIndex = 100 \<rparr>] \<noteq> [JNum (0 + 100)]
   \<and> data_memo [] [] 1 = Inr [\<lparr> data = empty_object, rowIndex = - 1 \<rparr>]
   \<and> relativeRemoveRowsIndex [- 3] [\<lparr> data = empty_object, rowIndex = - 1 \<rparr>] = [JNum (- 1)]
   \<and> relativeRemoveRowsIndex [- 3] [\<lparr> data = empty_object, rowIndex = - 1 \<rparr>] \<noteq> [JNum (- (- 3) - 1)]"
  by (simp add: removeSelectedRows_onClick_def data_memo_def new_Array_fill_map_def
        new_row_data_def upt_rec relativeRemoveRowsIndex_def findIndex_def)

text \<open>
  Claim C4, amended. Take any list of removed identities and any element \<open>i\<close> of it (the
  other elements may name rows that are not displayed). When \<open>i\<close> is a current new
  row, \<open>-newRowCount \<le> i < 0\<close>, the position forwarded to the grid for it is \<open>-i - 1\<close>.
  When \<open>i\<close> is non-negative and a fetched row of \<open>result\<close>, the fetched rows carrying the
  consecutive identities \<open>off, off + 1, ...\<close> (the \<open>j\<close>-th has \<open>rowIndex = off + j\<close>) and
  \<open>off \<le> i < off + length result\<close>, the position forwarded for it is
  \<open>newRowCount + (i - off)\<close>; this is \<open>newRowCount + i\<close> when the fetched rows are numbered
  from 0.
\<close>

theorem C4_removed_display_positions:
  assumes d: "data_memo headers result n = Inr d" and k: "k < length rs"
  shows "(- n \<le> rs ! k \<and> rs ! k < 0 \<longrightarrow>
            relativeRemoveRowsIndex rs d ! k = JNum (- (rs ! k) - 1))
       \<and> ((\<forall>j<length result. rowIndex (result ! j) = off + int j)
            \<and> 0 \<le> rs ! k \<and> off \<le> rs ! k \<and> rs ! k < off + int (length result) \<longrightarrow>
            relativeRemoveRowsIndex rs d ! k = JNum (n + (rs ! k - off)))"
proof -
  have pos: "relativeRemoveRowsIndex rs d ! k = JNum (findIndex (\<lambda>r. rowIndex r = rs ! k) d)"
    using k by (simp add: relativeRemoveRowsIndex_def)
  have new: "relativeRemoveRowsIndex rs d ! k = JNum (- (rs ! k) - 1)"
    if "- n \<le> rs ! k" "rs ! k < 0"
    using pos findIndex_new_row [OF d that] by simp
  have fetched: "relativeRemoveRowsIndex rs d ! k = JNum (n + (rs ! k - off))"
    if "\<forall>j<length result. rowIndex (result ! j) = off + int j"
       "0 \<le> rs ! k" "off \<le> rs ! k" "rs ! k < off + int (length result)"
    using pos findIndex_fetched_row [OF d that] by simp
  show ?thesis using new fetched by blast
qed

theorem C4_removed_display_positions_witness:
  "data_memo [] [\<lparr> data = empty_object, rowIndex = 100 \<rparr>, \<lparr> data = empty_object, rowIndex = 101 \<rparr>] 1 =
     Inr [\<lparr> data = empty_object, rowIndex = - 1 \<rparr>,
          \<lparr> data = empty_object, rowIndex = 100 \<rparr>, \<lparr> data = empty_object, rowIndex = 101 \<rparr>]
   \<and> relativeRemoveRowsIndex [101, 7, - 1]
        [\<lparr> data = empty_object, rowIndex = - 1 \<rparr>,
         \<lparr> data = empty_object, rowIndex = 100 \<rparr>, \<lparr> data = empty_object, rowIndex = 101 \<rparr>] ! 0 =
       JNum 2
   \<and> relativeRemoveRowsIndex [101, 7, - 1]
        [\<lparr> data = empty_object, rowIndex = - 1 \<rparr>,
         \<lparr> data = empty_object, rowIndex = 100 \<rparr>, \<lparr> data = empty_object, rowIndex = 101 \<rparr>] ! 2 =
       JNum 0"
proof -
  let ?res = "[\<lparr> data = empty_object, rowIndex = 100 \<rparr>, \<lparr> data = empty_object, rowIndex = 101 \<rparr>]"
  let ?d = "[\<lparr> data = empty_object, rowIndex = - 1 \<rparr>,
          \<lparr> data = empty_object, rowIndex = 100 \<rparr>, \<lparr> data = empty_object, rowIndex = 101 \<rparr>]"
  let ?rs = "[101, 7, - 1] :: int list"
  have d: "data_memo [] ?res 1 = Inr ?d"
    by (simp add: data_memo_def new_Array_fill_map_def new_row_data_def)
  have ids: "\<forall>j<length ?res. rowIndex (?res ! j) = 100 + int j"
    by (simp add: less_Suc_eq)
  have k0: "0 < length ?rs" and k2: "2 < length ?rs" by simp_all
  have fetched: "relativeRemoveRowsIndex ?rs ?d ! 0 = JNum 2"
    using C4_removed_display_positions [OF d k0, of 100, THEN conjunct2] ids by simp
  have new: "relativeRemoveRowsIndex ?rs ?d ! 2 = JNum 0"
    using C4_removed_display_positions [OF d k2, of 100, THEN conjunct1] by simp
  show ?thesis using d fetched new by simp
qed

text \<open>
  For a display position \<open>p\<close> of a new row, the identity removed and the identity of the
  row displayed there agree only when \<open>newRowCount = 2 * p + 1\<close>.
\<close>

lemma new_row_removal_identity:
  assumes "0 \<le> p" and "p < n" and "data_memo headers result n = Inr d"
  shows "removeSelectedRows_onClick [p] n page pageSize = [CollectorRemoveRow (p - n)]
         \<and> rowIndex (d ! nat p) = - (p + 1)
         \<and> ((p - n = - (p + 1)) = (n = 2 * p + 1))"
proof -
  have "nat p < nat n" using assms(1,2) by linarith
  then have "rowIndex (d ! nat p) = - (int (nat p) + 1)"
    by (rule data_memo_nth_new [OF assms(3)])
  moreover have "removeSelectedRows_onClick [p] n page pageSize = [CollectorRemoveRow (p - n)]"
    using assms(2) by (simp add: removeSelectedRows_onClick_def)
  moreover have "(p - n = - (p + 1)) = (n = 2 * p + 1)" by linarith
  ultimately show ?thesis using assms(1) by simp
qed

text \<open>
  Claim C2, evaluated where the code departs from it. With two new rows and display
  position 0 selected, the handler calls \<open>collector.removeRow(-2)\<close>, while the row
  displayed at position 0 has \<open>rowIndex = -1\<close>; the removed identity -2 is then forwarded
  to the grid as display position 1, so the row marked as removed is not the selected
  one.
\<close>

theorem C2_removes_another_new_row:
  "onClick (contextMenu c cm [0] 2 0 50 ! 1) c' cm' = [CollectorRemoveRow (- 2)]
   \<and> data_memo [] [] 2 = Inr [\<lparr> data = empty_object, rowIndex = - 1 \<rparr>,
                              \<lparr> data = empty_object, rowIndex = - 2 \<rparr>]
   \<and> rowIndex ([\<lparr> data = empty_object, rowIndex = - 1 \<rparr>,
                 \<lparr> data = empty_object, rowIndex = - 2 \<rparr>] ! 0) = - 1
   \<and> relativeRemoveRowsIndex [- 2] [\<lparr> data = empty_object, rowIndex = - 1 \<rparr>,
                                    \<lparr> data = empty_object, rowIndex = - 2 \<rparr>] = [JNum 1]"
  by (simp add: contextMenu_def Let_def removeSelectedRows_onClick_def data_memo_def
        new_Array_fill_map_def new_row_data_def upt_rec relativeRemoveRowsIndex_def
        findIndex_def)

section \<open>The initial width of a column\<close>

lemma Math_max_list_Max:
  "xs \<noteq> [] \<Longrightarrow> Math_max_list xs = Finite (Max (set xs))"
proof (induction xs)
  case Nil
  then show ?case by simp
next
  case (Cons x xs)
  show ?case
  proof (cases "xs = []")
    case True
    then show ?thesis by simp
  next
    case False
    then have "Math_max_list xs = Finite (Max (set xs))" by (rule Cons.IH)
    with False show ?thesis by simp
  qed
qed

lemma headerMemo_nth:
  "i < length headers \<Longrightarrow>
     headerMemo headers result ! i = headerMemo_entry result (int i) (headers ! i)"
  by (simp add: headerMemo_def nth_enumerate_eq)

lemma sample_length_eq:
  "sample_length h r =
     (case data r (name h) of Some (JStr s) \<Rightarrow> int (length s) | _ \<Rightarrow> 10)"
  by (simp add: sample_length_def js_get_def split: option.splits jsval.splits)

lemma getInitialSize_string:
  assumes "type_type h = ''string'' \<or> type_type h = ''decimal''" and "result \<noteq> []"
  shows "getInitialSizeByHeaderType result idx h =
           Finite (max 150 (min 500 (8 * Max (set (map
             (\<lambda>r. case data r (name h) of Some (JStr s) \<Rightarrow> int (length s) | _ \<Rightarrow> 10)
             (take 100 result))))))"
proof -
  have eq: "sample_length h =
              (\<lambda>r. case data r (name h) of Some (JStr s) \<Rightarrow> int (length s) | _ \<Rightarrow> 10)"
    by (rule ext) (rule sample_length_eq)
  have ne: "map (sample_length h) (take 100 result) \<noteq> []" using assms(2) by simp
  have "type_type h \<noteq> ''number''" using assms(1) by auto
  then have "getInitialSizeByHeaderType result idx h =
           Finite (max 150 (min 500 (8 * Max (set (map (sample_length h) (take 100 result))))))"
    using assms(1) Math_max_list_Max [OF ne]
    by (simp add: getInitialSizeByHeaderType_def Let_def mult.commute)
  then show ?thesis unfolding eq .
qed

lemma getInitialSize_string_empty:
  assumes "type_type h = ''string'' \<or> type_type h = ''decimal''"
  shows "getInitialSizeByHeaderType [] idx h = Finite 150"
proof -
  have "type_type h \<noteq> ''number''" using assms by auto
  then show ?thesis using assms by (simp add: getInitialSizeByHeaderType_def)
qed

text \<open>
  Claim C7. For the \<open>i\<close>-th header, of declared type \<open>string\<close> or \<open>decimal\<close>, and a
  non-empty \<open>result\<close>, \<open>initialSize\<close> is
  \<open>max (10 * length name) (max 150 (min 500 (8 * L)))\<close>, where \<open>L\<close> is the greatest, over
  the first up to 100 rows of \<open>result\<close>, of the length of the row's value for the column
  when that value is a string, and of 10 when it is anything else or the row has no
  value for the column. With no row at all there is no such \<open>L\<close> and the type-derived
  width is 150. The type-derived width is 100 for the type \<open>number\<close> and 150 for every
  other type, and \<open>initialSize\<close> is always the greater of \<open>10 * length name\<close> and the
  type-derived width. A \<open>string\<close> column whose longest sampled value has 60 characters
  has the type-derived width 480.
\<close>

theorem C7_initial_width:
  assumes "i < length headers"
  shows "((type_type (headers ! i) = ''string'' \<or> type_type (headers ! i) = ''decimal'') \<and> result \<noteq> [] \<longrightarrow>
            initialSize (headerMemo headers result ! i) =
              Finite (max (10 * int (length (name (headers ! i))))
                          (max 150 (min 500 (8 * Max (set (map
                             (\<lambda>r. case data r (name (headers ! i)) of
                                    Some (JStr s) \<Rightarrow> int (length s)
                                  | _ \<Rightarrow> 10)
                             (take 100 result))))))))
       \<and> (type_type (headers ! i) = ''number'' \<longrightarrow>
            getInitialSizeByHeaderType result (int i) (headers ! i) = Finite 100)
       \<and> (type_type (headers ! i) \<noteq> ''number'' \<and> type_type (headers ! i) \<noteq> ''string''
            \<and> type_type (headers ! i) \<noteq> ''decimal'' \<longrightarrow>
            getInitialSizeByHeaderType result (int i) (headers ! i) = Finite 150)
       \<and> ((type_type (headers ! i) = ''string'' \<or> type_type (headers ! i) = ''decimal'') \<longrightarrow>
            getInitialSizeByHeaderType [] (int i) (headers ! i) = Finite 150)
       \<and> initialSize (headerMemo headers result ! i) =
            Math_max (Finite (10 * int (length (name (headers ! i)))))
                     (getInitialSizeByHeaderType result (int i) (headers ! i))
       \<and> getInitialSizeByHeaderType
            [\<lparr> data = empty_object(''c'' \<mapsto> JStr (replicate 60 CHR ''x'')), rowIndex = 0 \<rparr>,
             \<lparr> data = empty_object(''c'' \<mapsto> JNull), rowIndex = 1 \<rparr>]
            0 \<lparr> name = ''c'', type_type = ''string'', schema = None \<rparr> = Finite 480"
proof -
  have entry: "initialSize (headerMemo headers result ! i) =
            Math_max (Finite (10 * int (length (name (headers ! i)))))
                     (getInitialSizeByHeaderType result (int i) (headers ! i))"
    using assms by (simp add: headerMemo_nth headerMemo_entry_def mult.commute)
  have str: "initialSize (headerMemo headers result ! i) =
              Finite (max (10 * int (length (name (headers ! i))))
                          (max 150 (min 500 (8 * Max (set (map
                             (\<lambda>r. case data r (name (headers ! i)) of
                                    Some (JStr s) \<Rightarrow> int (length s)
                                  | _ \<Rightarrow> 10)
                             (take 100 result)))))))"
    if "type_type (headers ! i) = ''string'' \<or> type_type (headers ! i) = ''decimal''" "result \<noteq> []"
    using entry getInitialSize_string [OF that] by simp
  have num: "getInitialSizeByHeaderType result (int i) (headers ! i) = Finite 100"
    if "type_type (headers ! i) = ''number''"
    using that by (simp add: getInitialSizeByHeaderType_def)
  have other: "getInitialSizeByHeaderType result (int i) (headers ! i) = Finite 150"
    if "type_type (headers ! i) \<noteq> ''number''" "type_type (headers ! i) \<noteq> ''string''"
       "type_type (headers ! i) \<noteq> ''decimal''"
    using that by (simp add: getInitialSizeByHeaderType_def)
  have ex: "getInitialSizeByHeaderType
            [\<lparr> data = empty_object(''c'' \<mapsto> JStr (replicate 60 CHR ''x'')), rowIndex = 0 \<rparr>,
             \<lparr> data = empty_object(''c'' \<mapsto> JNull), rowIndex = 1 \<rparr>]
            0 \<lparr> name = ''c'', type_type = ''string'', schema = None \<rparr> = Finite 480"
    by (simp add: getInitialSizeByHeaderType_def Let_def sample_length_def js_get_def)
  have none: "getInitialSizeByHeaderType [] (int i) (headers ! i) = Finite 150"
    if "type_type (headers ! i) = ''string'' \<or> type_type (headers ! i) = ''decimal''"
    using that by (rule getInitialSize_string_empty)
  show ?thesis using entry str num other none ex by blast
qed

theorem C7_initial_width_witness:
  "(0::nat) < length [\<lparr> name = ''c'', type_type = ''string'', schema = None \<rparr>]
   \<and> initialSize (headerMemo [\<lparr> name = ''c'', type_type = ''string'', schema = None \<rparr>]
        [\<lparr> data = empty_object(''c'' \<mapsto> JStr (replicate 20 CHR ''x'')), rowIndex = 0 \<rparr>,
         \<lparr> data = empty_object(''c'' \<mapsto> JNull), rowIndex = 1 \<rparr>,
         \<lparr> data = empty_object(''c'' \<mapsto> JStr (replicate 30 CHR ''y'')), rowIndex = 2 \<rparr>,
         \<lparr> data = empty_object, rowIndex = 3 \<rparr>] ! 0) = Finite 240
   \<and> getInitialSizeByHeaderType [] 0 \<lparr> name = ''n'', type_type = ''number'', schema = None \<rparr> = Finite 100
   \<and> getInitialSizeByHeaderType [] 0 \<lparr> name = ''d'', type_type = ''date'', schema = None \<rparr> = Finite 150"
proof -
  let ?hs = "[\<lparr> name = ''c'', type_type = ''string'', schema = None \<rparr>]"
  let ?res = "[\<lparr> data = empty_object(''c'' \<mapsto> JStr (replicate 20 CHR ''x'')), rowIndex = 0 \<rparr>,
         \<lparr> data = empty_object(''c'' \<mapsto> JNull), rowIndex = 1 \<rparr>,
         \<lparr> data = empty_object(''c'' \<mapsto> JStr (replicate 30 CHR ''y'')), rowIndex = 2 \<rparr>,
         \<lparr> data = empty_object, rowIndex = 3 \<rparr>]"
  have i: "(0::nat) < length ?hs" by simp
  have a: "initialSize (headerMemo ?hs ?res ! 0) = Finite 240"
    using C7_initial_width [OF i, of ?res, THEN conjunct1]
    by (simp add: empty_object_def)
  have j: "(0::nat) < length [\<lparr> name = ''n'', type_type = ''number'', schema = None \<rparr>]" by simp
  have b: "getInitialSizeByHeaderType [] 0 \<lparr> name = ''n'', type_type = ''number'', schema = None \<rparr> = Finite 100"
    using C7_initial_width [OF j, of "[]", THEN conjunct2, THEN conjunct1] by simp
  have k: "(0::nat) < length [\<lparr> name = ''d'', type_type = ''date'', schema = None \<rparr>]" by simp
  have c: "getInitialSizeByHeaderType [] 0 \<lparr> name = ''d'', type_type = ''date'', schema = None \<rparr> = Finite 150"
    using C7_initial_width [OF k, of "[]", THEN conjunct2, THEN conjunct2, THEN conjunct1] by simp
  show ?thesis using i a b c by simp
qed

section \<open>Read-only cells\<close>

lemma updatableTables_memo_absent:
  "currentDatabase = None \<or> currentDatabase = Some [] \<or> schemaMap = None \<Longrightarrow>
     updatableTables_memo getUpdatableTable headers schemaMap currentDatabase = empty_object"
  by (auto simp: updatableTables_memo_def split: option.splits)

lemma header_without_table_key:
  "schema h = None \<or> (\<exists>s. schema h = Some s \<and> (table s = None \<or> table s = Some [])) \<Longrightarrow>
     header_table_or_empty h = []"
  by (auto simp: header_table_or_empty_def)

lemma renderCell_readOnly:
  assumes "renderCell displayData headers updatableTables y x = Inr (TableCell c)"
  shows "0 \<le> x \<and> x < int (length headers)
         \<and> readOnly c = (\<not> truthy (js_get updatableTables (header_table_or_empty (headers ! nat x))))"
  using assms
  by (auto simp: renderCell_def js_index_def split: option.splits if_splits)

lemma readOnly_empty_updatableTables:
  assumes "renderCell displayData headers empty_object y x = Inr (TableCell c)"
  shows "readOnly c = (header_table_or_empty (headers ! nat x) \<notin> set Object_prototype_keys)"
  using renderCell_readOnly [OF assms] by (simp add: js_get_def empty_object_def)

lemma readOnly_without_table:
  assumes "renderCell displayData headers updatableTables y x = Inr (TableCell c)"
    and "header_table_or_empty (headers ! nat x) = []"
  shows "readOnly c = (\<not> truthy (js_get updatableTables []))"
  using renderCell_readOnly [OF assms(1)] assms(2) by simp

text \<open>
  Claim C9, evaluated where the code departs from it. The schema map and the current
  database are absent, so \<open>updatableTables\<close> is \<open>{}\<close>. The header comes from a table named
  \<open>constructor\<close>; \<open>updatableTables['constructor']\<close> is the property inherited from
  \<open>Object.prototype\<close>, which is truthy, and the cell is rendered with \<open>readOnly = false\<close>.
\<close>

theorem C9_prototype_key_is_editable:
  "updatableTables_memo getUpdatableTable
       [\<lparr> name = ''id'', type_type = ''number'',
          schema = Some \<lparr> table = Some ''constructor'', primaryKey = None \<rparr> \<rparr>] None None = empty_object
   \<and> renderCell [\<lparr> data = empty_object(''id'' \<mapsto> JNum 1), rowIndex = 0 \<rparr>]
        [\<lparr> name = ''id'', type_type = ''number'',
           schema = Some \<lparr> table = Some ''constructor'', primaryKey = None \<rparr> \<rparr>]
        empty_object 0 0 =
       Inr (TableCell \<lparr> key = 0, cell_value = JNum 1,
              cell_header = \<lparr> name = ''id'', type_type = ''number'',
                              schema = Some \<lparr> table = Some ''constructor'', primaryKey = None \<rparr> \<rparr>,
              cell_col = 0, cell_row = 0, readOnly = False \<rparr>)"
  by (simp add: updatableTables_memo_def renderCell_def js_index_def js_get_def
        header_table_or_empty_def empty_object_def Object_prototype_keys_def)

end
